theory Spec2Isabelle
  imports Main "HOL-Library.AList"
begin

section \<open>The publish script (publish.py)\<close>

text \<open>
  The script talks to four things outside itself: the file system (through
  \<^verbatim>\<open>os.path.exists\<close> and through the shell commands it spawns), the
  shell, standard input and standard output. The file system is an abstract state
  \<open>'fs\<close>; the operating system is a pair of functions over it.
\<close>

record CompletedProcess =
  returncode :: int
  stdout :: string
  stderr :: string

text \<open>
  What running a command in the shell and capturing its output gives: the return code with
  the decoded text of the two output streams, or, when the bytes the command wrote are
  not valid text in the locale's encoding, the return code alone.
\<close>

datatype shell_result = Decoded CompletedProcess | Undecodable int

record 'fs os =
  path_exists :: "string \<Rightarrow> 'fs \<Rightarrow> bool"
  shell :: "string \<Rightarrow> 'fs \<Rightarrow> shell_result \<times> 'fs"

text \<open>
  The exceptions that can be in flight: \<^verbatim>\<open>sys.exit(n)\<close> raises
  \<open>SystemExit n\<close>; \<^verbatim>\<open>subprocess.run(..., check=True, text=True)\<close>
  raises \<open>CalledProcessError\<close> on a non-zero return code and
  \<open>UnicodeDecodeError\<close> on output that cannot be decoded; \<^verbatim>\<open>input\<close>
  raises \<open>EOFError\<close> when standard input is exhausted.
\<close>

datatype exn =
    SystemExit int
  | CalledProcessError CompletedProcess
  | UnicodeDecodeError
  | EOFError

text \<open>
  One constructor per \<^verbatim>\<open>print\<close> statement of the script; the
  pictograph that starts each message is left out of the comments below.
\<close>

datatype line =
    Publishing          \<comment> \<open>Publishing AnyAgent Framework to PyPI\<close>
  | SetupNotFound       \<comment> \<open>setup.py not found. Run this from the project root.\<close>
  | Running string      \<comment> \<open>{description}...\<close>
  | Completed string    \<comment> \<open>{description} completed\<close>
  | Failed string       \<comment> \<open>{description} failed:\<close>
  | ErrorText string    \<comment> \<open>Error: {e.stderr}\<close>
  | UploadingTestPyPI   \<comment> \<open>Uploading to TestPyPI...\<close>
  | UploadedTestPyPI    \<comment> \<open>Uploaded to TestPyPI!\<close>
  | CheckTestPyPI       \<comment> \<open>Check: https://test.pypi.org/project/anyagent/\<close>
  | Published           \<comment> \<open>AnyAgent Framework published to PyPI!\<close>
  | CheckPyPI           \<comment> \<open>Check: https://pypi.org/project/anyagent/\<close>
  | InstallWith         \<comment> \<open>Install with: pip install anyagent\<close>
  | SkippedProduction   \<comment> \<open>Skipped production upload\<close>
  | Done                \<comment> \<open>Done!\<close>

datatype prompt =
    AskTestPyPI         \<comment> \<open>Upload to TestPyPI first? (y/n):\<close>
  | AskTestInstall      \<comment> \<open>Test install from TestPyPI? (y/n):\<close>
  | AskProduction       \<comment> \<open>Upload to production PyPI? (y/n):\<close>

text \<open>
  What a run does, in order: a line printed, a shell command run (with the return
  code it gave), a prompt shown, an answer read.
\<close>

datatype effect =
    Printed line
  | Ran string int
  | Prompted prompt
  | Answered prompt string

record 'fs world =
  fs :: 'fs
  keyboard :: "string list"
  effects :: "effect list"

type_synonym ('fs, 'a) prog = "'fs world \<Rightarrow> (exn + 'a) \<times> 'fs world"

definition return :: "'a \<Rightarrow> ('fs, 'a) prog" where
  "return a w = (Inr a, w)"

definition raise :: "exn \<Rightarrow> ('fs, 'a) prog" where
  "raise e w = (Inl e, w)"

definition andThen :: "('fs, 'a) prog \<Rightarrow> ('a \<Rightarrow> ('fs, 'b) prog) \<Rightarrow> ('fs, 'b) prog" where
  "andThen m f w = (case m w of (Inl e, w') \<Rightarrow> (Inl e, w') | (Inr a, w') \<Rightarrow> f a w')"

text \<open>\<^verbatim>\<open>try: body  except subprocess.CalledProcessError as e: handler\<close>\<close>

definition try_except_CalledProcessError ::
  "('fs, 'a) prog \<Rightarrow> (CompletedProcess \<Rightarrow> ('fs, 'a) prog) \<Rightarrow> ('fs, 'a) prog" where
  "try_except_CalledProcessError body handler w =
     (case body w of
        (Inl (CalledProcessError e), w') \<Rightarrow> handler e w'
      | (r, w') \<Rightarrow> (r, w'))"

definition print :: "line \<Rightarrow> ('fs, unit) prog" where
  "print l w = (Inr (), w\<lparr>effects := effects w @ [Printed l]\<rparr>)"

definition input :: "prompt \<Rightarrow> ('fs, string) prog" where
  "input p w =
     (case keyboard w of
        [] \<Rightarrow> (Inl EOFError, w\<lparr>effects := effects w @ [Prompted p]\<rparr>)
      | a # rest \<Rightarrow>
          (Inr a, w\<lparr>keyboard := rest, effects := effects w @ [Prompted p, Answered p a]\<rparr>))"

definition sys_exit :: "int \<Rightarrow> ('fs, 'a) prog" where
  "sys_exit n = raise (SystemExit n)"

text \<open>
  \<^verbatim>\<open>subprocess.run(cmd, shell=True, check=True, capture_output=True, text=True)\<close>:
  the command runs in the shell, which may change the file system. The captured output
  is decoded once the command has ended, before the return code is looked at, so output
  that cannot be decoded raises \<open>UnicodeDecodeError\<close> whatever the return code;
  otherwise \<^verbatim>\<open>check=True\<close> raises \<open>CalledProcessError\<close> on a
  non-zero return code. A shell that cannot be started is outside the model.
\<close>

definition subprocess_run :: "'fs os \<Rightarrow> string \<Rightarrow> ('fs, CompletedProcess) prog" where
  "subprocess_run sys cmd w =
     (case shell sys cmd (fs w) of
        (Undecodable rc, fs') \<Rightarrow>
          (Inl UnicodeDecodeError, w\<lparr>fs := fs', effects := effects w @ [Ran cmd rc]\<rparr>)
      | (Decoded p, fs') \<Rightarrow>
          (if returncode p \<noteq> 0 then Inl (CalledProcessError p) else Inr p,
           w\<lparr>fs := fs', effects := effects w @ [Ran cmd (returncode p)]\<rparr>))"

definition run_command :: "'fs os \<Rightarrow> string \<Rightarrow> string \<Rightarrow> ('fs, string) prog" where
  "run_command sys cmd description =
     andThen (print (Running description)) (\<lambda>_.
     try_except_CalledProcessError
       (andThen (subprocess_run sys cmd) (\<lambda>result.
        andThen (print (Completed description)) (\<lambda>_.
        return (stdout result))))
       (\<lambda>e.
        andThen (print (Failed description)) (\<lambda>_.
        andThen (print (ErrorText (stderr e))) (\<lambda>_.
        sys_exit 1))))"

text \<open>
  \<^verbatim>\<open>str.lower\<close>, on the characters that matter for the comparison with
  \<^verbatim>\<open>'y'\<close>: the letters A to Z go to a to z, every other character is kept.
\<close>

definition lower_char :: "char \<Rightarrow> char" where
  "lower_char c =
     (case map_of (zip ''ABCDEFGHIJKLMNOPQRSTUVWXYZ'' ''abcdefghijklmnopqrstuvwxyz'') c of
        None \<Rightarrow> c
      | Some l \<Rightarrow> l)"

definition lower :: "string \<Rightarrow> string" where
  "lower s = map lower_char s"

definition clean_cmd :: string where
  "clean_cmd = ''rm -rf build/ dist/ *.egg-info/''"

definition build_cmd :: string where
  "build_cmd = ''python3 setup.py sdist bdist_wheel''"

definition check_cmd :: string where
  "check_cmd = ''python3 -m twine check dist/*''"

definition testpypi_cmd :: string where
  "testpypi_cmd = ''python3 -m twine upload --repository testpypi dist/*''"

definition install_cmd :: string where
  "install_cmd = ''pip install --index-url https://test.pypi.org/simple/ --extra-index-url https://pypi.org/simple/ anyagent''"

definition pypi_cmd :: string where
  "pypi_cmd = ''python3 -m twine upload dist/*''"

text \<open>The blocks of \<^verbatim>\<open>main\<close>, in the order of the source.\<close>

definition check_project_root :: "'fs os \<Rightarrow> ('fs, unit) prog" where
  "check_project_root sys w =
     (if \<not> path_exists sys ''setup.py'' (fs w)
      then andThen (print SetupNotFound) (\<lambda>_. sys_exit 1) w
      else return () w)"

definition build_package :: "'fs os \<Rightarrow> ('fs, unit) prog" where
  "build_package sys =
     andThen (run_command sys clean_cmd ''Cleaning previous builds'') (\<lambda>_.
     andThen (run_command sys build_cmd ''Building package'') (\<lambda>_.
     andThen (run_command sys check_cmd ''Checking package'') (\<lambda>_.
     return ())))"

definition upload_testpypi :: "'fs os \<Rightarrow> ('fs, unit) prog" where
  "upload_testpypi sys =
     andThen (input AskTestPyPI) (\<lambda>response.
     if lower response = ''y''
     then
       andThen (print UploadingTestPyPI) (\<lambda>_.
       andThen (run_command sys testpypi_cmd ''Uploading to TestPyPI'') (\<lambda>_.
       andThen (print UploadedTestPyPI) (\<lambda>_.
       andThen (print CheckTestPyPI) (\<lambda>_.
       andThen (input AskTestInstall) (\<lambda>test_response.
       if lower test_response = ''y''
       then andThen (run_command sys install_cmd ''Testing install from TestPyPI'') (\<lambda>_. return ())
       else return ())))))
     else return ())"

definition upload_pypi :: "'fs os \<Rightarrow> ('fs, unit) prog" where
  "upload_pypi sys =
     andThen (input AskProduction) (\<lambda>response.
     if lower response = ''y''
     then
       andThen (run_command sys pypi_cmd ''Uploading to PyPI'') (\<lambda>_.
       andThen (print Published) (\<lambda>_.
       andThen (print CheckPyPI) (\<lambda>_.
       print InstallWith)))
     else print SkippedProduction)"

definition main :: "'fs os \<Rightarrow> ('fs, unit) prog" where
  "main sys =
     andThen (print Publishing) (\<lambda>_.
     andThen (check_project_root sys) (\<lambda>_.
     andThen (build_package sys) (\<lambda>_.
     andThen (upload_testpypi sys) (\<lambda>_.
     andThen (upload_pypi sys) (\<lambda>_.
     print Done)))))"

text \<open>
  The status the interpreter exits with: 0 when \<^verbatim>\<open>main\<close> returns, the
  argument of \<^verbatim>\<open>sys.exit\<close>, and 1 for any other uncaught exception.
\<close>

fun exit_status :: "exn + unit \<Rightarrow> int" where
  "exit_status (Inr _) = 0"
| "exit_status (Inl (SystemExit n)) = n"
| "exit_status (Inl _) = 1"

text \<open>A fresh process: nothing printed or run yet.\<close>

definition fresh :: "'fs \<Rightarrow> string list \<Rightarrow> 'fs world" where
  "fresh f keys = \<lparr>fs = f, keyboard = keys, effects = []\<rparr>"

text \<open>The shell commands of a run with their return codes, in order.\<close>

fun commands_run :: "effect list \<Rightarrow> (string \<times> int) list" where
  "commands_run [] = []"
| "commands_run (Ran c rc # es) = (c, rc) # commands_run es"
| "commands_run (_ # es) = commands_run es"


text \<open>
  What \<^verbatim>\<open>run_command\<close> prints after a failed command: the two lines of
  its \<^verbatim>\<open>except\<close> branch.
\<close>

definition is_error_report :: "effect list \<Rightarrow> bool" where
  "is_error_report es =
     (case es of [Printed (Failed d), Printed (ErrorText e)] \<Rightarrow> True | _ \<Rightarrow> False)"

text \<open>
  A history in which every command is followed in one of three ways: by the completion
  line, when it returned 0; by its error report and nothing else, when it returned
  another code; or by nothing at all.
\<close>

fun steps_succeed_or_end :: "effect list \<Rightarrow> bool" where
  "steps_succeed_or_end [] = True"
| "steps_succeed_or_end (Ran c rc # es) =
     (es = [] \<or>
      (if rc \<noteq> 0 then is_error_report es
       else (case es of Printed (Completed d) # _ \<Rightarrow> steps_succeed_or_end es | _ \<Rightarrow> False)))"
| "steps_succeed_or_end (_ # es) = steps_succeed_or_end es"

text \<open>Whether a history ends with a command, with nothing after it.\<close>

definition ends_with_command :: "effect list \<Rightarrow> bool" where
  "ends_with_command es = (case rev es of Ran c rc # _ \<Rightarrow> True | _ \<Rightarrow> False)"

text \<open>
  A history in which every upload command comes after a build command that returned 0;
  \<open>built\<close> says whether such a build has been seen already.
\<close>

fun uploads_after_build :: "bool \<Rightarrow> effect list \<Rightarrow> bool" where
  "uploads_after_build built [] = True"
| "uploads_after_build built (Ran c rc # es) =
     ((c = testpypi_cmd \<or> c = pypi_cmd \<longrightarrow> built) \<and>
      uploads_after_build (built \<or> (c = build_cmd \<and> rc = 0)) es)"
| "uploads_after_build built (_ # es) = uploads_after_build built es"

text \<open>
  A sample operating system for concrete runs: the file system is the list of the paths
  that exist; the commands listed in \<open>garbled\<close> return 3 with output that
  cannot be decoded, those listed in \<open>failing\<close> return 1, every other command
  returns 0; cleaning removes \<^verbatim>\<open>dist\<close> and building creates it.
\<close>

definition sample_shell ::
  "string list \<Rightarrow> string list \<Rightarrow> string \<Rightarrow> string list \<Rightarrow> shell_result \<times> string list" where
  "sample_shell garbled failing cmd f =
     (if cmd \<in> set garbled then (Undecodable 3, f)
      else if cmd \<in> set failing
      then (Decoded \<lparr>returncode = 1, stdout = [], stderr = ''boom''\<rparr>, f)
      else (Decoded \<lparr>returncode = 0, stdout = ''ok'', stderr = []\<rparr>,
            if cmd = clean_cmd then removeAll ''dist'' f
            else if cmd = build_cmd then ''dist'' # f
            else f))"

definition sample_os :: "string list \<Rightarrow> string list os" where
  "sample_os failing =
     \<lparr>path_exists = (\<lambda>p f. p \<in> set f), shell = sample_shell [] failing\<rparr>"

definition garbling_os :: "string list \<Rightarrow> string list os" where
  "garbling_os garbled =
     \<lparr>path_exists = (\<lambda>p f. p \<in> set f), shell = sample_shell garbled []\<rparr>"

section \<open>The proto package (anyagent/proto/__init__.py)\<close>

text \<open>
  The interpreter state that importing the package touches is \<^verbatim>\<open>sys.modules\<close>:
  the loaded modules by qualified name, each with its namespace. A namespace is an
  insertion-ordered dictionary from names to values; a module value is a reference to an
  entry of \<^verbatim>\<open>sys.modules\<close>. Of a fresh module's attributes only
  \<^verbatim>\<open>__name__\<close>, \<^verbatim>\<open>__doc__\<close> and \<^verbatim>\<open>__package__\<close>
  are kept; the loader's own (\<^verbatim>\<open>__file__\<close>, \<^verbatim>\<open>__path__\<close>,
  \<^verbatim>\<open>__spec__\<close> and so on) are left out.
\<close>

datatype pyvalue = NoneValue | Str string | StrList "string list" | Module string

type_synonym namespace = "(string \<times> pyvalue) list"

type_synonym sys_modules = "(string \<times> namespace) list"

text \<open>
  The generated modules are not part of the sources, so what the import system finds for a
  qualified name is a parameter: \<open>None\<close> when there is no such module, the namespace
  it has once loaded otherwise. A module that is found is taken to load without raising.
\<close>

type_synonym finder = "string \<Rightarrow> namespace option"

text \<open>\<^verbatim>\<open>ImportError: cannot import name {name} from {package}\<close>\<close>

datatype import_error = ImportError string string

definition namespace_of :: "sys_modules \<Rightarrow> string \<Rightarrow> namespace" where
  "namespace_of mods m = (case map_of mods m of None \<Rightarrow> [] | Some ns \<Rightarrow> ns)"

definition setattr :: "string \<Rightarrow> string \<Rightarrow> pyvalue \<Rightarrow> sys_modules \<Rightarrow> sys_modules" where
  "setattr m k v mods = AList.update m (AList.update k v (namespace_of mods m)) mods"

text \<open>A submodule can be imported when it is loaded already or the finder has it.\<close>

definition importable :: "finder \<Rightarrow> sys_modules \<Rightarrow> string \<Rightarrow> bool" where
  "importable fnd mods q = (map_of mods q \<noteq> None \<or> fnd q \<noteq> None)"

text \<open>The qualified name of a submodule of a package.\<close>

definition submodule_name :: "string \<Rightarrow> string \<Rightarrow> string" where
  "submodule_name package name = package @ ''.'' @ name"

text \<open>
  \<^verbatim>\<open>from . import name\<close>, run inside \<open>package\<close>: the submodule is taken
  from \<^verbatim>\<open>sys.modules\<close> or loaded and registered there, and bound to
  \<open>name\<close> in the package's namespace; a submodule that cannot be found raises.
\<close>

definition from_dot_import ::
  "finder \<Rightarrow> string \<Rightarrow> string \<Rightarrow> sys_modules \<Rightarrow> (import_error + unit) \<times> sys_modules" where
  "from_dot_import fnd package name mods =
     (let q = submodule_name package name in
      case map_of mods q of
        Some _ \<Rightarrow> (Inr (), setattr package name (Module q) mods)
      | None \<Rightarrow>
          (case fnd q of
             None \<Rightarrow> (Inl (ImportError name package), mods)
           | Some sub \<Rightarrow> (Inr (), setattr package name (Module q) (AList.update q sub mods))))"

definition proto :: string where
  "proto = ''anyagent.proto''"

definition proto_doc :: string where
  "proto_doc = CHR 0x0A # ''Proto package for AnyAgent framework.'' @ [CHR 0x0A, CHR 0x0A] @
     ''Contains the gRPC protocol buffer definitions and generated code.'' @ [CHR 0x0A]"

text \<open>
  The body of \<^verbatim>\<open>__init__.py\<close>: the docstring, the two imports and the
  assignment to \<^verbatim>\<open>__all__\<close>, in this order.
\<close>

definition proto_init :: "finder \<Rightarrow> sys_modules \<Rightarrow> (import_error + unit) \<times> sys_modules" where
  "proto_init fnd mods =
     (case from_dot_import fnd proto ''agent_pb2'' (setattr proto ''__doc__'' (Str proto_doc) mods) of
        (Inl e, mods1) \<Rightarrow> (Inl e, mods1)
      | (Inr _, mods1) \<Rightarrow>
          (case from_dot_import fnd proto ''agent_pb2_grpc'' mods1 of
             (Inl e, mods2) \<Rightarrow> (Inl e, mods2)
           | (Inr _, mods2) \<Rightarrow>
               (Inr (), setattr proto ''__all__'' (StrList [''agent_pb2'', ''agent_pb2_grpc'']) mods2)))"

definition new_module :: "string \<Rightarrow> namespace" where
  "new_module name = [(''__name__'', Str name), (''__doc__'', NoneValue), (''__package__'', Str name)]"

text \<open>
  \<^verbatim>\<open>import anyagent.proto\<close>: a package that is loaded already is returned
  as it is; otherwise a fresh module is registered, its body is run, and when the body
  raises the module is taken out of \<^verbatim>\<open>sys.modules\<close> again before the
  exception goes on to the caller.
\<close>

definition import_proto :: "finder \<Rightarrow> sys_modules \<Rightarrow> (import_error + namespace) \<times> sys_modules" where
  "import_proto fnd mods =
     (case map_of mods proto of
        Some ns \<Rightarrow> (Inr ns, mods)
      | None \<Rightarrow>
          (case proto_init fnd (AList.update proto (new_module proto) mods) of
             (Inl e, mods') \<Rightarrow> (Inl e, AList.delete proto mods')
           | (Inr _, mods') \<Rightarrow> (Inr (namespace_of mods' proto), mods')))"

text \<open>
  The names \<^verbatim>\<open>from module import *\<close> takes: those of
  \<^verbatim>\<open>__all__\<close> when it is a list of names, the names without a leading
  underscore otherwise.
\<close>

definition public_names :: "namespace \<Rightarrow> string list" where
  "public_names ns =
     (case map_of ns ''__all__'' of
        Some (StrList names) \<Rightarrow> names
      | _ \<Rightarrow> filter (\<lambda>k. take 1 k \<noteq> ''_'') (map fst ns))"

text \<open>A sample finder: the modules listed are present, each with a namespace of one name.\<close>

definition sample_finder :: "string list \<Rightarrow> finder" where
  "sample_finder present q = (if q \<in> set present then Some [(''__name__'', Str q)] else None)"

section \<open>The Agent Invocation Protocol\<close>

text \<open>
  The sources hold the publish script and the package that re-exports the generated
  message and service modules; the session state machine and the service handler that the
  specification describes are not among them. The definitions of this section follow
  the specification's sections 3, 4.2 and 4.3 sentence by sentence. Time is a natural
  number, identifiers and payloads are strings.
\<close>

text \<open>Modelled from the spec: the states of the Session State Machine (section 4.2).\<close>

datatype state = PENDING | RUNNING | COMPLETED | FAILED | CANCELLED

text \<open>Modelled from the spec: the outcome of a TerminalStatus (section 3).\<close>

datatype outcome = completed | failed | cancelled

text \<open>Modelled from the spec: InvocationRequest (section 3); the deadline is optional.\<close>

record InvocationRequest =
  request_id :: string
  payload :: string
  deadline :: "nat option"

text \<open>
  Modelled from the spec: the messages of the response stream (sections 3 and 9),
  \<open>OutputChunk request_id sequence_number data\<close> and
  \<open>TerminalStatus request_id outcome detail\<close>, as one tagged union.
\<close>

datatype message =
    OutputChunk string nat string
  | TerminalStatus string outcome string

text \<open>
  Modelled from the spec: Session (section 3), the state-machine state, the accumulated
  sequence number and the cancellation flag.
\<close>

record Session =
  state :: state
  sequence_number :: nat
  cancel_flag :: bool

text \<open>Modelled from the spec: HealthStatus (section 3).\<close>

record HealthStatus =
  serving :: bool
  active_session_count :: nat

text \<open>Modelled from the spec: the error kinds of section 7.\<close>

datatype error_kind =
    InvalidRequest | DuplicateRequest | DeadlineExceeded | NotFound
  | ProtocolViolation | TimeoutError | AgentFailure

text \<open>Modelled from the spec: the acknowledgement that Cancel returns (section 6).\<close>

datatype Acknowledgement = Acknowledgement

text \<open>Modelled from the spec: the terminal states of section 4.2.\<close>

fun is_terminal :: "state \<Rightarrow> bool" where
  "is_terminal COMPLETED = True"
| "is_terminal FAILED = True"
| "is_terminal CANCELLED = True"
| "is_terminal _ = False"

text \<open>
  Modelled from the spec: a Session as created on receipt of a request (section 3): state
  PENDING, sequence numbers starting at 0, no cancellation requested.
\<close>

definition new_session :: Session where
  "new_session = \<lparr>state = PENDING, sequence_number = 0, cancel_flag = False\<rparr>"

text \<open>
  Modelled from the spec: what can happen to a session (section 4.2). \<open>Start\<close> is the
  explicit start signal of the work function; \<open>Chunk d\<close> is a chunk boundary, where
  the work function hands the chunk \<open>d\<close> to the handler and the handler observes the
  cancellation flag; \<open>Finish detail\<close> is the normal end of work; \<open>Error detail\<close>
  is an unrecoverable error of the work function; \<open>CancelRequest\<close> is the receipt of
  a cancellation request.
\<close>

datatype event = Start | Chunk string | Finish string | Error string | CancelRequest

text \<open>
  Modelled from the spec: the Session State Machine, whose code is not among the sources.
  These are the transitions of section 4.2, with the messages each one emits;
  \<open>None\<close> where the section lists no transition.
  \<^item> PENDING to RUNNING on the start signal or on the first chunk.
  \<^item> RUNNING to RUNNING on each chunk, which carries the current sequence number; the
    number then goes up by one.
  \<^item> RUNNING to COMPLETED at the normal end of work, also when a cancellation has been
    requested and not yet observed (the tie-break of section 4.2).
  \<^item> PENDING or RUNNING to FAILED on an error of the work function.
  \<^item> PENDING or RUNNING to CANCELLED at the first chunk boundary after a cancellation
    request; the chunk is not emitted.
  \<^item> A cancellation request sets the flag of a session that is not terminal and is a
    no-op on a terminal one.
\<close>

fun step :: "string \<Rightarrow> Session \<Rightarrow> event \<Rightarrow> (Session \<times> message list) option" where
  "step rid s Start =
     (if state s = PENDING then Some (s\<lparr>state := RUNNING\<rparr>, []) else None)"
| "step rid s (Chunk d) =
     (if is_terminal (state s) then None
      else if cancel_flag s
      then Some (s\<lparr>state := CANCELLED\<rparr>, [TerminalStatus rid cancelled []])
      else Some (s\<lparr>state := RUNNING, sequence_number := Suc (sequence_number s)\<rparr>,
                 [OutputChunk rid (sequence_number s) d]))"
| "step rid s (Finish detail) =
     (if state s = RUNNING
      then Some (s\<lparr>state := COMPLETED\<rparr>, [TerminalStatus rid completed detail])
      else None)"
| "step rid s (Error detail) =
     (if is_terminal (state s) then None
      else Some (s\<lparr>state := FAILED\<rparr>, [TerminalStatus rid failed detail]))"
| "step rid s CancelRequest =
     (if is_terminal (state s) then Some (s, [])
      else Some (s\<lparr>cancel_flag := True\<rparr>, []))"

text \<open>
  Modelled from the spec: the lifetime of a session as a sequence of events (section 5:
  chunk production is sequential within a session); the stream is the concatenation of
  what the transitions emit.
\<close>

fun run :: "string \<Rightarrow> Session \<Rightarrow> event list \<Rightarrow> (Session \<times> message list) option" where
  "run rid s [] = Some (s, [])"
| "run rid s (e # es) =
     (case step rid s e of
        None \<Rightarrow> None
      | Some (s', out) \<Rightarrow>
          (case run rid s' es of
             None \<Rightarrow> None
           | Some (s'', out') \<Rightarrow> Some (s'', out @ out')))"

text \<open>Modelled from the spec: which messages are a TerminalStatus (section 3).\<close>

fun is_TerminalStatus :: "message \<Rightarrow> bool" where
  "is_TerminalStatus (TerminalStatus _ _ _) = True"
| "is_TerminalStatus (OutputChunk _ _ _) = False"

text \<open>Modelled from the spec: the request id a message carries (section 3).\<close>

fun message_request_id :: "message \<Rightarrow> string" where
  "message_request_id (OutputChunk rid _ _) = rid"
| "message_request_id (TerminalStatus rid _ _) = rid"

text \<open>
  Modelled from the spec: the sequence numbers of the chunks of a stream, in the order of
  the stream (section 3).
\<close>

fun sequence_numbers :: "message list \<Rightarrow> nat list" where
  "sequence_numbers [] = []"
| "sequence_numbers (OutputChunk _ n _ # ms) = n # sequence_numbers ms"
| "sequence_numbers (TerminalStatus _ _ _ # ms) = sequence_numbers ms"

text \<open>
  Modelled from the spec: the state of the Agent Service Handler (sections 3 and 4.3): the
  session table keyed by request id, the request ids the handler has seen (a session
  was created for them), and whether it is serving.
\<close>

record Handler =
  sessions :: "(string \<times> Session) list"
  seen :: "string list"
  is_serving :: bool

text \<open>Modelled from the spec: a deadline that is already in the past (section 4.3).\<close>

definition expired :: "nat \<Rightarrow> InvocationRequest \<Rightarrow> bool" where
  "expired now req = (case deadline req of None \<Rightarrow> False | Some d \<Rightarrow> d < now)"

text \<open>Modelled from the spec: a request id that has a Session in the table (section 4.3).\<close>

definition in_flight :: "Handler \<Rightarrow> string \<Rightarrow> bool" where
  "in_flight h rid = (map_of (sessions h) rid \<noteq> None)"

text \<open>
  Modelled from the spec: admission by Invoke of the Agent Service Handler, whose code is
  not among the sources (sections 4.1, 4.3, 7 and 8). A request whose deadline is in the
  past is rejected with DeadlineExceeded, as sections 4.3 and 8 say of every such
  request; of the others, one with an empty request id is rejected with InvalidRequest
  and one whose request id is in flight with DuplicateRequest. An admission error is
  returned synchronously, before any Session is created; an admitted request gets a new
  Session in the table.
\<close>

definition Invoke ::
  "nat \<Rightarrow> InvocationRequest \<Rightarrow> Handler \<Rightarrow> (error_kind + unit) \<times> Handler" where
  "Invoke now req h =
     (if expired now req then (Inl DeadlineExceeded, h)
      else if request_id req = [] then (Inl InvalidRequest, h)
      else if in_flight h (request_id req) then (Inl DuplicateRequest, h)
      else
        (Inr (), h\<lparr>sessions := AList.update (request_id req) new_session (sessions h),
                   seen := request_id req # seen h\<rparr>))"

text \<open>
  Modelled from the spec: the handler driving the state machine of the session of one
  request id (section 4.3); the messages are those the transition emits. Without a
  Session there is nothing to drive.
\<close>

definition work_event :: "string \<Rightarrow> event \<Rightarrow> Handler \<Rightarrow> (Handler \<times> message list) option" where
  "work_event rid ev h =
     (case map_of (sessions h) rid of
        None \<Rightarrow> None
      | Some s \<Rightarrow>
          (case step rid s ev of
             None \<Rightarrow> None
           | Some (s', out) \<Rightarrow> Some (h\<lparr>sessions := AList.update rid s' (sessions h)\<rparr>, out)))"

text \<open>
  Modelled from the spec: Cancel of the Agent Service Handler, whose code is not among
  the sources (section 4.3). NotFound only if the handler never saw the request id; no
  effect if the session is terminal or gone; otherwise the cancellation flag of the
  session is set.
\<close>

definition Cancel :: "string \<Rightarrow> Handler \<Rightarrow> (error_kind + Acknowledgement) \<times> Handler" where
  "Cancel rid h =
     (if rid \<notin> set (seen h) then (Inl NotFound, h)
      else
        (case map_of (sessions h) rid of
           None \<Rightarrow> (Inr Acknowledgement, h)
         | Some s \<Rightarrow>
             (if is_terminal (state s) then (Inr Acknowledgement, h)
              else (Inr Acknowledgement,
                    h\<lparr>sessions := AList.update rid (s\<lparr>cancel_flag := True\<rparr>) (sessions h)\<rparr>))))"

text \<open>
  Modelled from the spec: the destruction of a Session after its TerminalStatus has been
  delivered and acknowledged (section 3).
\<close>

definition destroy :: "string \<Rightarrow> Handler \<Rightarrow> Handler" where
  "destroy rid h =
     (case map_of (sessions h) rid of
        None \<Rightarrow> h
      | Some s \<Rightarrow>
          if is_terminal (state s) then h\<lparr>sessions := AList.delete rid (sessions h)\<rparr> else h)"

text \<open>
  Modelled from the spec: Health (section 4.3), answered from the handler's own state; the
  active sessions are those of the table that are not terminal.
\<close>

definition Health :: "Handler \<Rightarrow> HealthStatus" where
  "Health h =
     \<lparr>serving = is_serving h,
      active_session_count = length (filter (\<lambda>x. \<not> is_terminal (state (snd x))) (sessions h))\<rparr>"

text \<open>
  Modelled from the spec: a request id whose TerminalStatus has been fully delivered
  (section 8): the handler has seen it, and its Session is terminal or destroyed.
\<close>

definition terminal_delivered :: "Handler \<Rightarrow> string \<Rightarrow> bool" where
  "terminal_delivered h rid =
     (rid \<in> set (seen h) \<and>
      (case map_of (sessions h) rid of None \<Rightarrow> True | Some s \<Rightarrow> is_terminal (state s)))"

text \<open>Modelled from the spec: a handler that has not received any request yet.\<close>

definition empty_handler :: Handler where
  "empty_handler = \<lparr>sessions = [], seen = [], is_serving = True\<rparr>"

section \<open>Properties of the publish script\<close>

lemma lower_char_y: "lower_char c = CHR ''y'' \<longleftrightarrow> c = CHR ''y'' \<or> c = CHR ''Y''"
  by (simp add: lower_char_def)

lemma lower_eq_y_iff: "lower s = ''y'' \<longleftrightarrow> s = ''y'' \<or> s = ''Y''"
  by (cases s) (auto simp: lower_def lower_char_y)

lemma run_command_cases:
  "run_command sys cmd d w =
     (case fst (shell sys cmd (fs w)) of
        Undecodable rc \<Rightarrow>
          (Inl UnicodeDecodeError,
           w\<lparr>fs := snd (shell sys cmd (fs w)),
             effects := effects w @ [Printed (Running d), Ran cmd rc]\<rparr>)
      | Decoded p \<Rightarrow>
          if returncode p = 0
          then (Inr (stdout p),
                w\<lparr>fs := snd (shell sys cmd (fs w)), effects := effects w @
                   [Printed (Running d), Ran cmd 0, Printed (Completed d)]\<rparr>)
          else (Inl (SystemExit 1),
                w\<lparr>fs := snd (shell sys cmd (fs w)), effects := effects w @
                   [Printed (Running d), Ran cmd (returncode p),
                    Printed (Failed d), Printed (ErrorText (stderr p))]\<rparr>))"
  by (simp add: run_command_def andThen_def print_def try_except_CalledProcessError_def
      subprocess_run_def return_def sys_exit_def raise_def
      split: prod.splits shell_result.splits)

lemmas unfold_main = main_def andThen_def print_def check_project_root_def build_package_def
  upload_testpypi_def upload_pypi_def input_def return_def sys_exit_def raise_def fresh_def
  run_command_cases

lemma cmds_distinct:
  "distinct [clean_cmd, build_cmd, check_cmd, testpypi_cmd, install_cmd, pypi_cmd]"
  by (simp add: clean_cmd_def build_cmd_def check_cmd_def testpypi_cmd_def install_cmd_def
      pypi_cmd_def)

lemma cmds_neq:
  "clean_cmd \<noteq> build_cmd" "clean_cmd \<noteq> check_cmd" "clean_cmd \<noteq> testpypi_cmd"
  "clean_cmd \<noteq> install_cmd" "clean_cmd \<noteq> pypi_cmd"
  "build_cmd \<noteq> clean_cmd" "build_cmd \<noteq> check_cmd" "build_cmd \<noteq> testpypi_cmd"
  "build_cmd \<noteq> install_cmd" "build_cmd \<noteq> pypi_cmd"
  "check_cmd \<noteq> clean_cmd" "check_cmd \<noteq> build_cmd" "check_cmd \<noteq> testpypi_cmd"
  "check_cmd \<noteq> install_cmd" "check_cmd \<noteq> pypi_cmd"
  "testpypi_cmd \<noteq> clean_cmd" "testpypi_cmd \<noteq> build_cmd" "testpypi_cmd \<noteq> check_cmd"
  "testpypi_cmd \<noteq> install_cmd" "testpypi_cmd \<noteq> pypi_cmd"
  "install_cmd \<noteq> clean_cmd" "install_cmd \<noteq> build_cmd" "install_cmd \<noteq> check_cmd"
  "install_cmd \<noteq> testpypi_cmd" "install_cmd \<noteq> pypi_cmd"
  "pypi_cmd \<noteq> clean_cmd" "pypi_cmd \<noteq> build_cmd" "pypi_cmd \<noteq> check_cmd"
  "pypi_cmd \<noteq> testpypi_cmd" "pypi_cmd \<noteq> install_cmd"
  using cmds_distinct by auto

subsection \<open>Histories\<close>

lemma is_error_report_iff:
  "is_error_report es \<longleftrightarrow> (\<exists>d e. es = [Printed (Failed d), Printed (ErrorText e)])"
  by (auto simp: is_error_report_def split: list.splits effect.splits line.splits)

lemma error_report_has_no_command: "is_error_report es \<Longrightarrow> Ran c rc \<notin> set es"
  by (auto simp: is_error_report_iff)

lemma steps_succeed_or_end_append:
  "steps_succeed_or_end (pre @ Ran c rc # post) \<Longrightarrow>
   post = [] \<or> (rc \<noteq> 0 \<and> is_error_report post) \<or>
   (rc = 0 \<and> (\<exists>d rest. post = Printed (Completed d) # rest))"
proof (induction pre)
  case Nil
  then show ?case
    by (auto split: if_splits list.splits effect.splits line.splits)
next
  case (Cons a pre)
  show ?case
  proof (cases a)
    case (Ran c' rc')
    have "\<not> is_error_report (pre @ Ran c rc # post)"
      using error_report_has_no_command [of "pre @ Ran c rc # post" c rc] by auto
    with Cons.prems Ran have "steps_succeed_or_end (pre @ Ran c rc # post)"
      by (auto split: if_splits list.splits effect.splits line.splits)
    then show ?thesis by (rule Cons.IH)
  next
    case (Printed l)
    with Cons show ?thesis by simp
  next
    case (Prompted p)
    with Cons show ?thesis by simp
  next
    case (Answered p a)
    with Cons show ?thesis by simp
  qed
qed

lemma ends_with_command_snoc:
  "ends_with_command (es @ [x]) = (case x of Ran c rc \<Rightarrow> True | _ \<Rightarrow> False)"
  by (simp add: ends_with_command_def)

lemma commands_run_iff: "(c, rc) \<in> set (commands_run es) \<longleftrightarrow> Ran c rc \<in> set es"
  by (induction es rule: commands_run.induct) auto

lemma commands_run_append: "commands_run (xs @ ys) = commands_run xs @ commands_run ys"
  by (induction xs rule: commands_run.induct) auto


lemma uploads_after_build_append:
  "uploads_after_build b (pre @ Ran c rc # post) \<Longrightarrow> c = testpypi_cmd \<or> c = pypi_cmd \<Longrightarrow>
   b \<or> Ran build_cmd 0 \<in> set pre"
  by (induction b pre rule: uploads_after_build.induct) auto


subsection \<open>Every path through main\<close>

text \<open>
  Each lemma below is a fact about the history of a whole run from a fresh process,
  for any operating system and any input; its proof follows every path through
  \<^verbatim>\<open>main\<close>.
\<close>

lemma main_uploads_after_build:
  "uploads_after_build False (effects (snd (main sys (fresh f keys))))"
  by (simp add: unfold_main cmds_neq split: list.splits shell_result.splits)

lemma main_steps_succeed_or_end:
  "steps_succeed_or_end (effects (snd (main sys (fresh f keys))))"
  by (simp add: unfold_main is_error_report_def split: list.splits shell_result.splits)

lemma main_failure_exit:
  "list_all (\<lambda>x. snd x = 0) (commands_run (effects (snd (main sys (fresh f keys))))) \<or>
   fst (main sys (fresh f keys)) = Inl (SystemExit 1) \<or>
   fst (main sys (fresh f keys)) = Inl UnicodeDecodeError"
  by (simp add: unfold_main split: list.splits shell_result.splits)

lemma main_decode_error:
  "(fst (main sys (fresh f keys)) = Inl UnicodeDecodeError) =
   ends_with_command (effects (snd (main sys (fresh f keys))))"
  by (simp add: unfold_main ends_with_command_def split: list.splits shell_result.splits)













subsection \<open>The claims about the publish script\<close>

text \<open>
  C1, as amended. Every step of the script is run by \<^verbatim>\<open>run_command\<close>, and a
  step ends in one of three ways. When the command returns 0 and its output can be
  decoded, \<^verbatim>\<open>run_command\<close> prints the completion line and returns the
  command's standard output. When it returns another code and its output can be
  decoded, \<^verbatim>\<open>run_command\<close> prints the failure line and the command's
  standard error and raises \<^verbatim>\<open>SystemExit(1)\<close>. When its output cannot be
  decoded, whatever the return code, \<^verbatim>\<open>subprocess.run\<close> raises
  \<^verbatim>\<open>UnicodeDecodeError\<close>, which \<^verbatim>\<open>run_command\<close> does not
  catch: nothing more is printed. Second conjunct: in a run of \<^verbatim>\<open>main\<close>,
  a command in the history is followed by its completion line (and it returned 0), or by
  its error report and nothing else (and the process exits with status 1 through
  \<^verbatim>\<open>sys.exit\<close>), or by nothing at all (and the process ends with the
  uncaught \<^verbatim>\<open>UnicodeDecodeError\<close>, status 1); so no later step is run
  after a step that did not succeed.
\<close>

theorem step_succeeds_or_run_aborts:
  "run_command sys cmd d w =
     (case fst (shell sys cmd (fs w)) of
        Undecodable rc' \<Rightarrow>
          (Inl UnicodeDecodeError,
           w\<lparr>fs := snd (shell sys cmd (fs w)),
             effects := effects w @ [Printed (Running d), Ran cmd rc']\<rparr>)
      | Decoded p \<Rightarrow>
          if returncode p = 0
          then (Inr (stdout p),
                w\<lparr>fs := snd (shell sys cmd (fs w)), effects := effects w @
                   [Printed (Running d), Ran cmd 0, Printed (Completed d)]\<rparr>)
          else (Inl (SystemExit 1),
                w\<lparr>fs := snd (shell sys cmd (fs w)), effects := effects w @
                   [Printed (Running d), Ran cmd (returncode p),
                    Printed (Failed d), Printed (ErrorText (stderr p))]\<rparr>))
   \<and> (effects (snd (main sys (fresh f keys))) = pre @ Ran c rc # post \<longrightarrow>
        ((rc = 0 \<and> (\<exists>d' rest. post = Printed (Completed d') # rest)) \<or>
         (rc \<noteq> 0 \<and> (\<exists>d' e. post = [Printed (Failed d'), Printed (ErrorText e)]) \<and>
          fst (main sys (fresh f keys)) = Inl (SystemExit 1) \<and>
          exit_status (fst (main sys (fresh f keys))) = 1) \<or>
         (post = [] \<and> fst (main sys (fresh f keys)) = Inl UnicodeDecodeError \<and>
          exit_status (fst (main sys (fresh f keys))) = 1)))"
proof (intro conjI impI)
  show "run_command sys cmd d w =
     (case fst (shell sys cmd (fs w)) of
        Undecodable rc' \<Rightarrow>
          (Inl UnicodeDecodeError,
           w\<lparr>fs := snd (shell sys cmd (fs w)),
             effects := effects w @ [Printed (Running d), Ran cmd rc']\<rparr>)
      | Decoded p \<Rightarrow>
          if returncode p = 0
          then (Inr (stdout p),
                w\<lparr>fs := snd (shell sys cmd (fs w)), effects := effects w @
                   [Printed (Running d), Ran cmd 0, Printed (Completed d)]\<rparr>)
          else (Inl (SystemExit 1),
                w\<lparr>fs := snd (shell sys cmd (fs w)), effects := effects w @
                   [Printed (Running d), Ran cmd (returncode p),
                    Printed (Failed d), Printed (ErrorText (stderr p))]\<rparr>))"
    by (rule run_command_cases)
next
  let ?E = "effects (snd (main sys (fresh f keys)))"
  let ?r = "fst (main sys (fresh f keys))"
  assume a: "?E = pre @ Ran c rc # post"
  with main_steps_succeed_or_end [of sys f keys]
  have "steps_succeed_or_end (pre @ Ran c rc # post)" by simp
  then consider
      (garbled) "post = []"
    | (failed) "rc \<noteq> 0" "is_error_report post"
    | (succeeded) "rc = 0" "\<exists>d' rest. post = Printed (Completed d') # rest"
    using steps_succeed_or_end_append by blast
  then show "(rc = 0 \<and> (\<exists>d' rest. post = Printed (Completed d') # rest)) \<or>
         (rc \<noteq> 0 \<and> (\<exists>d' e. post = [Printed (Failed d'), Printed (ErrorText e)]) \<and>
          ?r = Inl (SystemExit 1) \<and> exit_status ?r = 1) \<or>
         (post = [] \<and> ?r = Inl UnicodeDecodeError \<and> exit_status ?r = 1)"
  proof cases
    case garbled
    with a have "ends_with_command ?E" by (simp add: ends_with_command_snoc)
    then have "?r = Inl UnicodeDecodeError" by (simp add: main_decode_error)
    with garbled show ?thesis by simp
  next
    case failed
    then obtain d' e where post: "post = [Printed (Failed d'), Printed (ErrorText e)]"
      by (auto simp: is_error_report_iff)
    with a have "?E = (pre @ [Ran c rc, Printed (Failed d')]) @ [Printed (ErrorText e)]"
      by simp
    then have "\<not> ends_with_command ?E"
      by (simp only: ends_with_command_snoc) simp
    then have n: "?r \<noteq> Inl UnicodeDecodeError" by (simp add: main_decode_error)
    from a have "(c, rc) \<in> set (commands_run ?E)" by (simp add: commands_run_iff)
    with failed(1) have "\<not> list_all (\<lambda>x. snd x = 0) (commands_run ?E)"
      unfolding list_all_iff by force
    with main_failure_exit [of sys f keys] n have "?r = Inl (SystemExit 1)" by blast
    with failed(1) post show ?thesis by simp
  next
    case succeeded
    then show ?thesis by blast
  qed
qed

theorem step_succeeds_or_run_aborts_witness:
  "run_command (sample_os [check_cmd]) check_cmd ''Checking package'' (fresh [''setup.py''] []) =
     (Inl (SystemExit 1),
      \<lparr>fs = [''setup.py''], keyboard = [],
       effects = [Printed (Running ''Checking package''), Ran check_cmd 1,
                  Printed (Failed ''Checking package''), Printed (ErrorText ''boom'')]\<rparr>)
   \<and> effects (snd (main (sample_os [check_cmd]) (fresh [''setup.py''] []))) =
       [Printed Publishing,
        Printed (Running ''Cleaning previous builds''), Ran clean_cmd 0,
        Printed (Completed ''Cleaning previous builds''),
        Printed (Running ''Building package''), Ran build_cmd 0,
        Printed (Completed ''Building package''),
        Printed (Running ''Checking package'')]
       @ Ran check_cmd 1 # [Printed (Failed ''Checking package''), Printed (ErrorText ''boom'')]
   \<and> (1::int) \<noteq> 0
   \<and> fst (main (sample_os [check_cmd]) (fresh [''setup.py''] [])) = Inl (SystemExit 1)
   \<and> exit_status (fst (main (sample_os [check_cmd]) (fresh [''setup.py''] []))) = 1"
  using step_succeeds_or_run_aborts [where sys = "sample_os [check_cmd]" and cmd = check_cmd
      and w = "fresh [''setup.py''] []" and d = "''Checking package''"
      and f = "[''setup.py'']" and keys = "[]"
      and pre = "[Printed Publishing,
        Printed (Running ''Cleaning previous builds''), Ran clean_cmd 0,
        Printed (Completed ''Cleaning previous builds''),
        Printed (Running ''Building package''), Ran build_cmd 0,
        Printed (Completed ''Building package''),
        Printed (Running ''Checking package'')]" and c = check_cmd and rc = 1
      and post = "[Printed (Failed ''Checking package''), Printed (ErrorText ''boom'')]"]
  by (simp add: unfold_main sample_os_def sample_shell_def cmds_neq)

text \<open>
  C1, as stated, leaves a step two ways to end. A command whose output cannot be decoded
  ends in neither: here the check command returns 3 with such output, its standard
  output is not returned, no failure line is printed and \<^verbatim>\<open>sys.exit(1)\<close>
  is not reached.
\<close>

theorem step_succeeds_or_run_aborts_counterexample:
  "run_command (garbling_os [check_cmd]) check_cmd ''Checking package'' (fresh [''setup.py''] []) =
     (Inl UnicodeDecodeError,
      \<lparr>fs = [''setup.py''], keyboard = [],
       effects = [Printed (Running ''Checking package''), Ran check_cmd 3]\<rparr>)
   \<and> main (garbling_os [check_cmd]) (fresh [''setup.py''] []) =
     (Inl UnicodeDecodeError,
      \<lparr>fs = [''dist'', ''setup.py''], keyboard = [],
       effects = [Printed Publishing,
        Printed (Running ''Cleaning previous builds''), Ran clean_cmd 0,
        Printed (Completed ''Cleaning previous builds''),
        Printed (Running ''Building package''), Ran build_cmd 0,
        Printed (Completed ''Building package''),
        Printed (Running ''Checking package''), Ran check_cmd 3]\<rparr>)"
  by (simp add: unfold_main garbling_os_def sample_shell_def cmds_neq)

text \<open>
  C3. In every run of \<^verbatim>\<open>main\<close>, an upload command (to TestPyPI or to PyPI) is
  run only after the build command of the same run has returned 0.
\<close>

theorem upload_only_after_successful_build:
  assumes "effects (snd (main sys (fresh f keys))) = pre @ Ran c rc # post"
      and "c = testpypi_cmd \<or> c = pypi_cmd"
    shows "Ran build_cmd 0 \<in> set pre"
  using assms main_uploads_after_build [of sys f keys]
    uploads_after_build_append [of False pre c rc post]
  by simp

theorem upload_only_after_successful_build_witness:
  "effects (snd (main (sample_os []) (fresh [''setup.py''] [''n'', ''Y'']))) =
       [Printed Publishing,
        Printed (Running ''Cleaning previous builds''), Ran clean_cmd 0,
        Printed (Completed ''Cleaning previous builds''),
        Printed (Running ''Building package''), Ran build_cmd 0,
        Printed (Completed ''Building package''),
        Printed (Running ''Checking package''), Ran check_cmd 0,
        Printed (Completed ''Checking package''),
        Prompted AskTestPyPI, Answered AskTestPyPI ''n'',
        Prompted AskProduction, Answered AskProduction ''Y'',
        Printed (Running ''Uploading to PyPI'')]
       @ Ran pypi_cmd 0 #
       [Printed (Completed ''Uploading to PyPI''), Printed Published, Printed CheckPyPI,
        Printed InstallWith, Printed Done]
   \<and> Ran build_cmd 0 \<in> set
       [Printed Publishing,
        Printed (Running ''Cleaning previous builds''), Ran clean_cmd 0,
        Printed (Completed ''Cleaning previous builds''),
        Printed (Running ''Building package''), Ran build_cmd 0,
        Printed (Completed ''Building package''),
        Printed (Running ''Checking package''), Ran check_cmd 0,
        Printed (Completed ''Checking package''),
        Prompted AskTestPyPI, Answered AskTestPyPI ''n'',
        Prompted AskProduction, Answered AskProduction ''Y'',
        Printed (Running ''Uploading to PyPI'')]"
  using upload_only_after_successful_build [where sys = "sample_os []" and f = "[''setup.py'']"
      and keys = "[''n'', ''Y'']"
      and pre = "[Printed Publishing,
        Printed (Running ''Cleaning previous builds''), Ran clean_cmd 0,
        Printed (Completed ''Cleaning previous builds''),
        Printed (Running ''Building package''), Ran build_cmd 0,
        Printed (Completed ''Building package''),
        Printed (Running ''Checking package''), Ran check_cmd 0,
        Printed (Completed ''Checking package''),
        Prompted AskTestPyPI, Answered AskTestPyPI ''n'',
        Prompted AskProduction, Answered AskProduction ''Y'',
        Printed (Running ''Uploading to PyPI'')]" and c = pypi_cmd and rc = 0
      and post = "[Printed (Completed ''Uploading to PyPI''), Printed Published, Printed CheckPyPI,
        Printed InstallWith, Printed Done]"]
  by (simp add: unfold_main sample_os_def sample_shell_def cmds_neq lower_def lower_char_def)

text \<open>
  C8. When \<^verbatim>\<open>setup.py\<close> does not exist, \<^verbatim>\<open>main\<close> prints its banner
  and the complaint and exits with status 1: no shell command is run and the file
  system is as it was.
\<close>

theorem main_without_setup_py:
  assumes "\<not> path_exists sys ''setup.py'' (fs w)"
  shows "main sys w =
           (Inl (SystemExit 1),
            w\<lparr>effects := effects w @ [Printed Publishing, Printed SetupNotFound]\<rparr>)
         \<and> exit_status (fst (main sys w)) = 1
         \<and> commands_run (effects (snd (main sys w))) = commands_run (effects w)
         \<and> fs (snd (main sys w)) = fs w"
  using assms
  by (simp add: main_def andThen_def print_def check_project_root_def sys_exit_def raise_def
      commands_run_append)

theorem main_without_setup_py_witness:
  "\<not> path_exists (sample_os []) ''setup.py'' (fs (fresh [''build'', ''dist''] [''y'', ''y'', ''y'']))
   \<and> main (sample_os []) (fresh [''build'', ''dist''] [''y'', ''y'', ''y'']) =
       (Inl (SystemExit 1),
        \<lparr>fs = [''build'', ''dist''], keyboard = [''y'', ''y'', ''y''],
         effects = [Printed Publishing, Printed SetupNotFound]\<rparr>)
   \<and> commands_run (effects (snd (main (sample_os []) (fresh [''build'', ''dist''] [''y'', ''y'', ''y''])))) = []
   \<and> fs (snd (main (sample_os []) (fresh [''build'', ''dist''] [''y'', ''y'', ''y'']))) = [''build'', ''dist'']"
  using main_without_setup_py [of "sample_os []" "fresh [''build'', ''dist''] [''y'', ''y'', ''y'']"]
  by (simp add: sample_os_def fresh_def)






section \<open>Properties of the proto package\<close>

lemma map_of_setattr:
  "map_of (setattr m k v mods) x =
     (if x = m then Some (AList.update k v (namespace_of mods m)) else map_of mods x)"
  by (simp add: setattr_def update_conv')

lemma namespace_of_setattr:
  "namespace_of (setattr m k v mods) x =
     (if x = m then AList.update k v (namespace_of mods m) else namespace_of mods x)"
  by (simp add: namespace_of_def map_of_setattr)

lemma namespace_of_update:
  "namespace_of (AList.update q sub mods) x = (if x = q then sub else namespace_of mods x)"
  by (simp add: namespace_of_def update_conv')

lemma importable_setattr:
  "x \<noteq> m \<Longrightarrow> importable fnd (setattr m k v mods) x = importable fnd mods x"
  by (simp add: importable_def map_of_setattr)

lemma importable_update:
  "x \<noteq> q \<Longrightarrow> importable fnd (AList.update q sub mods) x = importable fnd mods x"
  by (simp add: importable_def update_conv')

lemma submodule_name_neq: "submodule_name package name \<noteq> package"
  by (simp add: submodule_name_def)

lemma submodule_name_proto:
  "submodule_name proto ''agent_pb2'' = ''anyagent.proto.agent_pb2''"
  "submodule_name proto ''agent_pb2_grpc'' = ''anyagent.proto.agent_pb2_grpc''"
  by (simp_all add: submodule_name_def proto_def)

text \<open>A submodule that cannot be imported: the statement raises and changes nothing.\<close>

lemma from_dot_import_missing:
  assumes "\<not> importable fnd mods (submodule_name package name)"
  shows "from_dot_import fnd package name mods = (Inl (ImportError name package), mods)"
  using assms by (simp add: from_dot_import_def importable_def)

text \<open>
  A submodule that can be imported: the statement binds it in the package's namespace,
  which is registered afterwards, and no other module becomes importable or stops
  being so.
\<close>

lemma from_dot_import_found:
  assumes "importable fnd mods (submodule_name package name)"
  obtains mods' where
    "from_dot_import fnd package name mods = (Inr (), mods')"
    "namespace_of mods' package =
       AList.update name (Module (submodule_name package name)) (namespace_of mods package)"
    "map_of mods' package = Some (namespace_of mods' package)"
    "\<And>x. x \<noteq> package \<Longrightarrow> importable fnd mods' x = importable fnd mods x"
proof -
  let ?q = "submodule_name package name"
  let ?loaded = "case map_of mods ?q of
      Some _ \<Rightarrow> mods
    | None \<Rightarrow> (case fnd ?q of Some sub \<Rightarrow> AList.update ?q sub mods | None \<Rightarrow> mods)"
  let ?mods' = "setattr package name (Module ?q) ?loaded"
  have neq: "package \<noteq> ?q" using submodule_name_neq [of package name] by simp
  have 1: "from_dot_import fnd package name mods = (Inr (), ?mods')"
    using assms by (auto simp: from_dot_import_def importable_def Let_def split: option.splits)
  have l: "namespace_of ?loaded package = namespace_of mods package"
    using neq by (simp add: namespace_of_update split: option.splits)
  have 2: "namespace_of ?mods' package =
       AList.update name (Module ?q) (namespace_of mods package)"
    by (simp add: namespace_of_setattr l)
  have 3: "map_of ?mods' package = Some (namespace_of ?mods' package)"
    by (simp add: namespace_of_setattr map_of_setattr)
  have 4: "importable fnd ?mods' x = importable fnd mods x" if "x \<noteq> package" for x
    using assms that
    by (auto simp: importable_def map_of_setattr update_conv' split: option.splits)
  from 1 2 3 4 show thesis by (rule that)
qed

text \<open>The body of the package, import by import.\<close>

lemma proto_init_cases:
  fixes fnd mods
  defines "a \<equiv> importable fnd mods (submodule_name proto ''agent_pb2'')"
      and "b \<equiv> importable fnd mods (submodule_name proto ''agent_pb2_grpc'')"
  shows "fst (proto_init fnd mods) =
           (if \<not> a then Inl (ImportError ''agent_pb2'' proto)
            else if \<not> b then Inl (ImportError ''agent_pb2_grpc'' proto)
            else Inr ())"
    and "a \<Longrightarrow> b \<Longrightarrow>
         namespace_of (snd (proto_init fnd mods)) proto =
           AList.update ''__all__'' (StrList [''agent_pb2'', ''agent_pb2_grpc''])
             (AList.update ''agent_pb2_grpc'' (Module (submodule_name proto ''agent_pb2_grpc''))
               (AList.update ''agent_pb2'' (Module (submodule_name proto ''agent_pb2''))
                 (AList.update ''__doc__'' (Str proto_doc) (namespace_of mods proto))))"
    and "a \<Longrightarrow> b \<Longrightarrow>
         map_of (snd (proto_init fnd mods)) proto =
           Some (namespace_of (snd (proto_init fnd mods)) proto)"
proof -
  let ?m0 = "setattr proto ''__doc__'' (Str proto_doc) mods"
  let ?all = "StrList [''agent_pb2'', ''agent_pb2_grpc'']"
  have a0: "importable fnd ?m0 (submodule_name proto ''agent_pb2'') = a"
    unfolding a_def by (rule importable_setattr) (rule submodule_name_neq)
  have b0: "importable fnd ?m0 (submodule_name proto ''agent_pb2_grpc'') = b"
    unfolding b_def by (rule importable_setattr) (rule submodule_name_neq)
  have all: "fst (proto_init fnd mods) =
           (if \<not> a then Inl (ImportError ''agent_pb2'' proto)
            else if \<not> b then Inl (ImportError ''agent_pb2_grpc'' proto)
            else Inr ())
      \<and> (a \<and> b \<longrightarrow>
           namespace_of (snd (proto_init fnd mods)) proto =
             AList.update ''__all__'' ?all
               (AList.update ''agent_pb2_grpc'' (Module (submodule_name proto ''agent_pb2_grpc''))
                 (AList.update ''agent_pb2'' (Module (submodule_name proto ''agent_pb2''))
                   (AList.update ''__doc__'' (Str proto_doc) (namespace_of mods proto)))) \<and>
           map_of (snd (proto_init fnd mods)) proto =
             Some (namespace_of (snd (proto_init fnd mods)) proto))"
  proof (cases a)
    case False
    with a0 have "proto_init fnd mods = (Inl (ImportError ''agent_pb2'' proto), ?m0)"
      by (simp add: proto_init_def from_dot_import_missing)
    with False show ?thesis by simp
  next
    case True
    with a0 have "importable fnd ?m0 (submodule_name proto ''agent_pb2'')" by simp
    then obtain m1 where
      i1: "from_dot_import fnd proto ''agent_pb2'' ?m0 = (Inr (), m1)" and
      n1: "namespace_of m1 proto =
        AList.update ''agent_pb2'' (Module (submodule_name proto ''agent_pb2''))
          (namespace_of ?m0 proto)" and
      k1: "\<And>x. x \<noteq> proto \<Longrightarrow> importable fnd m1 x = importable fnd ?m0 x"
      by (rule from_dot_import_found) blast
    from k1 [OF submodule_name_neq] b0
    have b1: "importable fnd m1 (submodule_name proto ''agent_pb2_grpc'') = b" by simp
    show ?thesis
    proof (cases b)
      case False
      with b1 have "from_dot_import fnd proto ''agent_pb2_grpc'' m1 =
          (Inl (ImportError ''agent_pb2_grpc'' proto), m1)"
        by (simp add: from_dot_import_missing)
      then have "proto_init fnd mods = (Inl (ImportError ''agent_pb2_grpc'' proto), m1)"
        by (simp add: proto_init_def i1)
      with True False show ?thesis by simp
    next
      case b: True
      with b1 have "importable fnd m1 (submodule_name proto ''agent_pb2_grpc'')" by simp
      then obtain m2 where
        i2: "from_dot_import fnd proto ''agent_pb2_grpc'' m1 = (Inr (), m2)" and
        n2: "namespace_of m2 proto =
          AList.update ''agent_pb2_grpc'' (Module (submodule_name proto ''agent_pb2_grpc''))
            (namespace_of m1 proto)"
        by (rule from_dot_import_found) blast
      have "proto_init fnd mods = (Inr (), setattr proto ''__all__'' ?all m2)"
        by (simp add: proto_init_def i1 i2)
      with True b show ?thesis
        by (simp add: namespace_of_setattr map_of_setattr n1 n2)
    qed
  qed
  from all show "fst (proto_init fnd mods) =
           (if \<not> a then Inl (ImportError ''agent_pb2'' proto)
            else if \<not> b then Inl (ImportError ''agent_pb2_grpc'' proto)
            else Inr ())"
    by blast
  from all show "a \<Longrightarrow> b \<Longrightarrow>
         namespace_of (snd (proto_init fnd mods)) proto =
           AList.update ''__all__'' (StrList [''agent_pb2'', ''agent_pb2_grpc''])
             (AList.update ''agent_pb2_grpc'' (Module (submodule_name proto ''agent_pb2_grpc''))
               (AList.update ''agent_pb2'' (Module (submodule_name proto ''agent_pb2''))
                 (AList.update ''__doc__'' (Str proto_doc) (namespace_of mods proto))))"
    by blast
  from all show "a \<Longrightarrow> b \<Longrightarrow>
         map_of (snd (proto_init fnd mods)) proto =
           Some (namespace_of (snd (proto_init fnd mods)) proto)"
    by blast
qed


subsection \<open>The claims about the proto package\<close>

text \<open>
  C10. Importing the package, when it is not loaded yet, succeeds exactly when both
  generated modules can be imported from within it. When the import fails it raises
  \<^verbatim>\<open>ImportError\<close>, naming the first of the two modules that is missing,
  and afterwards \<^verbatim>\<open>sys.modules\<close> has no entry for the package: no
  namespace with only part of the names is left for a caller.
\<close>

theorem proto_import_all_or_nothing:
  assumes "map_of mods proto = None"
  shows "(\<not> isl (fst (import_proto fnd mods)) \<longleftrightarrow>
            importable fnd mods (submodule_name proto ''agent_pb2'') \<and>
            importable fnd mods (submodule_name proto ''agent_pb2_grpc''))
       \<and> (isl (fst (import_proto fnd mods)) \<longrightarrow>
            (\<exists>name. fst (import_proto fnd mods) = Inl (ImportError name proto)) \<and>
            map_of (snd (import_proto fnd mods)) proto = None)
       \<and> (\<not> importable fnd mods (submodule_name proto ''agent_pb2'') \<longrightarrow>
            fst (import_proto fnd mods) = Inl (ImportError ''agent_pb2'' proto))
       \<and> (importable fnd mods (submodule_name proto ''agent_pb2'') \<and>
          \<not> importable fnd mods (submodule_name proto ''agent_pb2_grpc'') \<longrightarrow>
            fst (import_proto fnd mods) = Inl (ImportError ''agent_pb2_grpc'' proto))"
proof -
  let ?mods = "AList.update proto (new_module proto) mods"
  have a: "importable fnd ?mods (submodule_name proto ''agent_pb2'') =
      importable fnd mods (submodule_name proto ''agent_pb2'')"
    by (rule importable_update) (rule submodule_name_neq)
  have b: "importable fnd ?mods (submodule_name proto ''agent_pb2_grpc'') =
      importable fnd mods (submodule_name proto ''agent_pb2_grpc'')"
    by (rule importable_update) (rule submodule_name_neq)
  have r: "fst (import_proto fnd mods) =
      (case fst (proto_init fnd ?mods) of Inl e \<Rightarrow> Inl e
       | Inr _ \<Rightarrow> Inr (namespace_of (snd (proto_init fnd ?mods)) proto))"
    using assms by (simp add: import_proto_def split: prod.splits sum.splits)
  have s: "isl (fst (proto_init fnd ?mods)) \<Longrightarrow>
      map_of (snd (import_proto fnd mods)) proto = None"
    using assms by (auto simp: import_proto_def delete_conv' split: prod.splits sum.splits)
  show ?thesis
    using s by (simp add: r proto_init_cases(1) a b)
qed

theorem proto_import_all_or_nothing_witness:
  "map_of [] proto = None
   \<and> importable (sample_finder [''anyagent.proto.agent_pb2'']) [] (submodule_name proto ''agent_pb2'')
   \<and> \<not> importable (sample_finder [''anyagent.proto.agent_pb2'']) [] (submodule_name proto ''agent_pb2_grpc'')
   \<and> import_proto (sample_finder [''anyagent.proto.agent_pb2'']) [] =
       (Inl (ImportError ''agent_pb2_grpc'' proto),
        [(''anyagent.proto.agent_pb2'', [(''__name__'', Str ''anyagent.proto.agent_pb2'')])])
   \<and> map_of (snd (import_proto (sample_finder [''anyagent.proto.agent_pb2'']) [])) proto = None"
  using proto_import_all_or_nothing [of "[]" "sample_finder [''anyagent.proto.agent_pb2'']"]
  by (simp add: import_proto_def proto_init_def from_dot_import_def setattr_def namespace_of_def
      new_module_def sample_finder_def importable_def submodule_name_def proto_def Let_def)

text \<open>
  C2. After a successful import the namespace of the package, registered in
  \<^verbatim>\<open>sys.modules\<close> under \<^verbatim>\<open>anyagent.proto\<close>, binds the two
  generated modules \<^verbatim>\<open>agent_pb2\<close> and \<^verbatim>\<open>agent_pb2_grpc\<close>;
  they are its only names without a leading underscore, and
  \<^verbatim>\<open>__all__\<close> lists exactly these two names.
\<close>

theorem proto_reexports_two_modules:
  assumes "map_of mods proto = None"
      and "import_proto fnd mods = (Inr ns, mods')"
  shows "ns = [(''__name__'', Str proto), (''__doc__'', Str proto_doc), (''__package__'', Str proto),
               (''agent_pb2'', Module ''anyagent.proto.agent_pb2''),
               (''agent_pb2_grpc'', Module ''anyagent.proto.agent_pb2_grpc''),
               (''__all__'', StrList [''agent_pb2'', ''agent_pb2_grpc''])]
       \<and> map_of mods' proto = Some ns
       \<and> public_names ns = [''agent_pb2'', ''agent_pb2_grpc'']
       \<and> filter (\<lambda>k. take 1 k \<noteq> ''_'') (map fst ns) = [''agent_pb2'', ''agent_pb2_grpc'']
       \<and> map (map_of ns) (public_names ns) =
           [Some (Module ''anyagent.proto.agent_pb2''), Some (Module ''anyagent.proto.agent_pb2_grpc'')]"
proof -
  let ?mods = "AList.update proto (new_module proto) mods"
  from assms have ok: "fst (proto_init fnd ?mods) = Inr ()"
    and ns: "ns = namespace_of (snd (proto_init fnd ?mods)) proto"
    and m: "mods' = snd (proto_init fnd ?mods)"
    by (auto simp: import_proto_def split: prod.splits sum.splits)
  from ok have a: "importable fnd ?mods (submodule_name proto ''agent_pb2'')"
    and b: "importable fnd ?mods (submodule_name proto ''agent_pb2_grpc'')"
    by (auto simp: proto_init_cases(1) split: if_splits)
  have 1: "ns = [(''__name__'', Str proto), (''__doc__'', Str proto_doc), (''__package__'', Str proto),
               (''agent_pb2'', Module ''anyagent.proto.agent_pb2''),
               (''agent_pb2_grpc'', Module ''anyagent.proto.agent_pb2_grpc''),
               (''__all__'', StrList [''agent_pb2'', ''agent_pb2_grpc''])]"
    unfolding ns proto_init_cases(2) [OF a b]
    by (simp add: namespace_of_update new_module_def submodule_name_proto)
  have 2: "map_of mods' proto = Some ns"
    unfolding m ns by (rule proto_init_cases(3) [OF a b])
  have 3: "public_names ns = [''agent_pb2'', ''agent_pb2_grpc'']"
    unfolding 1 by (simp add: public_names_def)
  have 4: "filter (\<lambda>k. take 1 k \<noteq> ''_'') (map fst ns) = [''agent_pb2'', ''agent_pb2_grpc'']"
    unfolding 1 by simp
  have 5: "map (map_of ns) (public_names ns) =
           [Some (Module ''anyagent.proto.agent_pb2''), Some (Module ''anyagent.proto.agent_pb2_grpc'')]"
    unfolding 3 unfolding 1 by simp
  from 1 2 3 4 5 show ?thesis by blast
qed

theorem proto_reexports_two_modules_witness:
  "map_of [] proto = None
   \<and> import_proto (sample_finder [''anyagent.proto.agent_pb2'', ''anyagent.proto.agent_pb2_grpc'']) [] =
       (Inr [(''__name__'', Str proto), (''__doc__'', Str proto_doc), (''__package__'', Str proto),
             (''agent_pb2'', Module ''anyagent.proto.agent_pb2''),
             (''agent_pb2_grpc'', Module ''anyagent.proto.agent_pb2_grpc''),
             (''__all__'', StrList [''agent_pb2'', ''agent_pb2_grpc''])],
        [(proto, [(''__name__'', Str proto), (''__doc__'', Str proto_doc), (''__package__'', Str proto),
             (''agent_pb2'', Module ''anyagent.proto.agent_pb2''),
             (''agent_pb2_grpc'', Module ''anyagent.proto.agent_pb2_grpc''),
             (''__all__'', StrList [''agent_pb2'', ''agent_pb2_grpc''])]),
         (''anyagent.proto.agent_pb2'', [(''__name__'', Str ''anyagent.proto.agent_pb2'')]),
         (''anyagent.proto.agent_pb2_grpc'', [(''__name__'', Str ''anyagent.proto.agent_pb2_grpc'')])])
   \<and> public_names [(''__name__'', Str proto), (''__doc__'', Str proto_doc), (''__package__'', Str proto),
             (''agent_pb2'', Module ''anyagent.proto.agent_pb2''),
             (''agent_pb2_grpc'', Module ''anyagent.proto.agent_pb2_grpc''),
             (''__all__'', StrList [''agent_pb2'', ''agent_pb2_grpc''])] = [''agent_pb2'', ''agent_pb2_grpc'']"
  using proto_reexports_two_modules [of "[]" "sample_finder [''anyagent.proto.agent_pb2'', ''anyagent.proto.agent_pb2_grpc'']"
      "[(''__name__'', Str proto), (''__doc__'', Str proto_doc), (''__package__'', Str proto),
             (''agent_pb2'', Module ''anyagent.proto.agent_pb2''),
             (''agent_pb2_grpc'', Module ''anyagent.proto.agent_pb2_grpc''),
             (''__all__'', StrList [''agent_pb2'', ''agent_pb2_grpc''])]"
      "[(proto, [(''__name__'', Str proto), (''__doc__'', Str proto_doc), (''__package__'', Str proto),
             (''agent_pb2'', Module ''anyagent.proto.agent_pb2''),
             (''agent_pb2_grpc'', Module ''anyagent.proto.agent_pb2_grpc''),
             (''__all__'', StrList [''agent_pb2'', ''agent_pb2_grpc''])]),
         (''anyagent.proto.agent_pb2'', [(''__name__'', Str ''anyagent.proto.agent_pb2'')]),
         (''anyagent.proto.agent_pb2_grpc'', [(''__name__'', Str ''anyagent.proto.agent_pb2_grpc'')])]"]
  by (simp add: import_proto_def proto_init_def from_dot_import_def setattr_def namespace_of_def
      new_module_def sample_finder_def submodule_name_def proto_def public_names_def Let_def)

section \<open>Properties of the Agent Invocation Protocol\<close>

subsection \<open>Runs of the session state machine\<close>

lemma step_terminal:
  "is_terminal (state s) \<Longrightarrow> step rid s e = Some (s', out) \<Longrightarrow> s' = s \<and> out = []"
  by (cases e) (auto split: if_splits)

lemma run_terminal:
  "is_terminal (state s) \<Longrightarrow> run rid s es = Some (s', out) \<Longrightarrow> s' = s \<and> out = []"
proof (induction es arbitrary: s' out)
  case Nil
  then show ?case by simp
next
  case (Cons e es)
  from Cons.prems obtain s1 o1 s2 o2 where
    st: "step rid s e = Some (s1, o1)" and rn: "run rid s1 es = Some (s2, o2)"
    and res: "s' = s2" "out = o1 @ o2"
    by (auto split: option.splits)
  from step_terminal [OF Cons.prems(1) st] have "s1 = s" "o1 = []" by simp_all
  with Cons.IH [OF Cons.prems(1)] rn res show ?case by simp
qed

lemma step_emits:
  assumes "\<not> is_terminal (state s)" and "step rid s e = Some (s', out)"
  shows "if is_terminal (state s')
         then (\<exists>oc d. out = [TerminalStatus rid oc d])
         else (out = [] \<and> sequence_number s' = sequence_number s) \<or>
              (\<exists>d. out = [OutputChunk rid (sequence_number s) d] \<and>
                   sequence_number s' = Suc (sequence_number s))"
  using assms by (cases e) (auto split: if_splits)

lemma run_stream:
  assumes "\<not> is_terminal (state s)" and "run rid s es = Some (s', out)"
  shows "if is_terminal (state s')
         then length (filter is_TerminalStatus out) = 1 \<and> out \<noteq> [] \<and> is_TerminalStatus (last out)
         else filter is_TerminalStatus out = []"
  using assms
proof (induction es arbitrary: s out)
  case Nil
  then show ?case by simp
next
  case (Cons e es)
  from Cons.prems(2) obtain s1 o1 o2 where
    st: "step rid s e = Some (s1, o1)" and rn: "run rid s1 es = Some (s', o2)"
    and out: "out = o1 @ o2"
    by (auto split: option.splits)
  show ?case
  proof (cases "is_terminal (state s1)")
    case True
    from run_terminal [OF True rn] have "s' = s1" "o2 = []" by simp_all
    with step_emits [OF Cons.prems(1) st] True out show ?thesis by auto
  next
    case False
    with step_emits [OF Cons.prems(1) st]
    have o1: "filter is_TerminalStatus o1 = []" by auto
    from Cons.IH [OF False rn] o1 out show ?thesis
      by (auto split: if_splits)
  qed
qed

lemma run_request_id:
  "run rid s es = Some (s', out) \<Longrightarrow> m \<in> set out \<Longrightarrow> message_request_id m = rid"
proof (induction es arbitrary: s out)
  case Nil
  then show ?case by simp
next
  case (Cons e es)
  from Cons.prems(1) obtain s1 o1 o2 where
    st: "step rid s e = Some (s1, o1)" and rn: "run rid s1 es = Some (s', o2)"
    and out: "out = o1 @ o2"
    by (auto split: option.splits)
  from st have "\<forall>m \<in> set o1. message_request_id m = rid"
    by (cases e) (auto split: if_splits)
  with Cons.IH [OF rn] Cons.prems(2) out show ?case by auto
qed

lemma sequence_numbers_append:
  "sequence_numbers (xs @ ys) = sequence_numbers xs @ sequence_numbers ys"
  by (induction xs rule: sequence_numbers.induct) simp_all

lemma upt_join: "a \<le> b \<Longrightarrow> b \<le> c \<Longrightarrow> [a..<b] @ [b..<c] = [a..<(c::nat)]"
  using upt_add_eq_append [of a b "c - b"] by simp

lemma step_sequence:
  "step rid s e = Some (s', out) \<Longrightarrow>
   sequence_number s \<le> sequence_number s' \<and>
   sequence_numbers out = [sequence_number s..<sequence_number s']"
  by (cases e) (auto split: if_splits)

lemma run_sequence:
  "run rid s es = Some (s', out) \<Longrightarrow>
   sequence_number s \<le> sequence_number s' \<and>
   sequence_numbers out = [sequence_number s..<sequence_number s']"
proof (induction es arbitrary: s out)
  case Nil
  then show ?case by simp
next
  case (Cons e es)
  from Cons.prems(1) obtain s1 o1 o2 where
    st: "step rid s e = Some (s1, o1)" and rn: "run rid s1 es = Some (s', o2)"
    and out: "out = o1 @ o2"
    by (auto split: option.splits)
  from step_sequence [OF st] Cons.IH [OF rn] out show ?case
    by (simp add: sequence_numbers_append upt_join)
qed

lemma stream_ends_in_terminal:
  assumes "length (filter is_TerminalStatus out) = 1" and "out \<noteq> []"
      and "is_TerminalStatus (last out)"
  shows "filter is_TerminalStatus (butlast out) = []"
proof -
  from assms(2) have "out = butlast out @ [last out]" by simp
  then have "filter is_TerminalStatus out =
      filter is_TerminalStatus (butlast out) @ [last out]"
    using assms(3) by (metis filter.simps(1,2) filter_append)
  with assms(1) show ?thesis by simp
qed

subsection \<open>The claims about the session state machine\<close>

text \<open>
  C4. Take any sequence of events on a new session of request id \<open>rid\<close>. Once
  the session is in a terminal state its stream holds exactly one TerminalStatus, and it
  is the last message; before that the stream holds none. From a terminal state on, no
  event changes the session or emits a message. Every message of the stream carries
  \<open>rid\<close>. The lifetime of a session ends with its terminal state (section 3), so
  over a lifetime exactly one TerminalStatus is produced.
\<close>

theorem one_terminal_status_and_it_is_last:
  assumes "run rid new_session evs = Some (s, out)"
  shows "(is_terminal (state s) \<longrightarrow>
            length (filter is_TerminalStatus out) = 1 \<and> out \<noteq> [] \<and> is_TerminalStatus (last out))
       \<and> (\<not> is_terminal (state s) \<longrightarrow> filter is_TerminalStatus out = [])
       \<and> (is_terminal (state s) \<and> run rid s later = Some (s', out') \<longrightarrow> s' = s \<and> out' = [])
       \<and> (m \<in> set out \<longrightarrow> message_request_id m = rid)"
proof -
  have "\<not> is_terminal (state new_session)" by (simp add: new_session_def)
  from run_stream [OF this assms]
  have "(is_terminal (state s) \<longrightarrow>
            length (filter is_TerminalStatus out) = 1 \<and> out \<noteq> [] \<and> is_TerminalStatus (last out))
       \<and> (\<not> is_terminal (state s) \<longrightarrow> filter is_TerminalStatus out = [])"
    by (simp split: if_splits)
  moreover have "is_terminal (state s) \<and> run rid s later = Some (s', out') \<longrightarrow> s' = s \<and> out' = []"
    using run_terminal [of s rid later s' out'] by blast
  moreover have "m \<in> set out \<longrightarrow> message_request_id m = rid"
    using run_request_id [OF assms] by blast
  ultimately show ?thesis by blast
qed

theorem one_terminal_status_and_it_is_last_witness:
  "run ''r1'' new_session [Chunk ''partial'', Chunk ''more'', Finish ''done''] =
     Some (\<lparr>state = COMPLETED, sequence_number = 2, cancel_flag = False\<rparr>,
           [OutputChunk ''r1'' 0 ''partial'', OutputChunk ''r1'' 1 ''more'',
            TerminalStatus ''r1'' completed ''done''])
   \<and> is_terminal (state \<lparr>state = COMPLETED, sequence_number = 2, cancel_flag = False\<rparr>)
   \<and> length (filter is_TerminalStatus
        [OutputChunk ''r1'' 0 ''partial'', OutputChunk ''r1'' 1 ''more'',
         TerminalStatus ''r1'' completed ''done'']) = 1
   \<and> is_TerminalStatus (last
        [OutputChunk ''r1'' 0 ''partial'', OutputChunk ''r1'' 1 ''more'',
         TerminalStatus ''r1'' completed ''done''])
   \<and> run ''r1'' \<lparr>state = COMPLETED, sequence_number = 2, cancel_flag = False\<rparr> [CancelRequest] =
       Some (\<lparr>state = COMPLETED, sequence_number = 2, cancel_flag = False\<rparr>, [])
   \<and> TerminalStatus ''r1'' completed ''done'' \<in> set
        [OutputChunk ''r1'' 0 ''partial'', OutputChunk ''r1'' 1 ''more'',
         TerminalStatus ''r1'' completed ''done'']
   \<and> message_request_id (TerminalStatus ''r1'' completed ''done'') = ''r1''"
  using one_terminal_status_and_it_is_last [where rid = "''r1''"
      and evs = "[Chunk ''partial'', Chunk ''more'', Finish ''done'']"
      and s = "\<lparr>state = COMPLETED, sequence_number = 2, cancel_flag = False\<rparr>"
      and out = "[OutputChunk ''r1'' 0 ''partial'', OutputChunk ''r1'' 1 ''more'',
            TerminalStatus ''r1'' completed ''done'']"
      and later = "[CancelRequest]"
      and s' = "\<lparr>state = COMPLETED, sequence_number = 2, cancel_flag = False\<rparr>"
      and out' = "[]"
      and m = "TerminalStatus ''r1'' completed ''done''"]
  by (simp add: new_session_def)

text \<open>
  C5. Take any sequence of events on a new session. The sequence numbers of the chunks
  of its stream are \<open>0, 1, 2, ...\<close> up to the session's counter, in this order,
  with no gap and no repeat; once the session is terminal the stream ends in a
  TerminalStatus and every message before it is a chunk; and a chunk emitted from
  RUNNING to RUNNING carries the current sequence number and raises the counter by
  exactly one. The client is taken to observe the stream in the order it is produced
  (section 5: delivery is a total order within a session).
\<close>

theorem sequence_numbers_count_up:
  assumes "run rid new_session evs = Some (s, out)"
  shows "sequence_numbers out = [0..<sequence_number s]
       \<and> (is_terminal (state s) \<longrightarrow>
            out \<noteq> [] \<and> is_TerminalStatus (last out) \<and>
            filter is_TerminalStatus (butlast out) = [])
       \<and> (state s1 = RUNNING \<and> step rid s1 (Chunk d) = Some (s2, o2) \<and> state s2 = RUNNING \<longrightarrow>
            sequence_number s2 = Suc (sequence_number s1) \<and>
            o2 = [OutputChunk rid (sequence_number s1) d])"
proof -
  have 1: "sequence_numbers out = [0..<sequence_number s]"
    using run_sequence [OF assms] by (simp add: new_session_def)
  have "\<not> is_terminal (state new_session)" by (simp add: new_session_def)
  from run_stream [OF this assms]
  have 2: "is_terminal (state s) \<longrightarrow>
            out \<noteq> [] \<and> is_TerminalStatus (last out) \<and>
            filter is_TerminalStatus (butlast out) = []"
    using stream_ends_in_terminal [of out] by (auto split: if_splits)
  have 3: "state s1 = RUNNING \<and> step rid s1 (Chunk d) = Some (s2, o2) \<and> state s2 = RUNNING \<longrightarrow>
            sequence_number s2 = Suc (sequence_number s1) \<and>
            o2 = [OutputChunk rid (sequence_number s1) d]"
    by (auto split: if_splits)
  from 1 2 3 show ?thesis by blast
qed

theorem sequence_numbers_count_up_witness:
  "run ''r1'' new_session [Start, Chunk ''partial'', CancelRequest, Chunk ''more''] =
     Some (\<lparr>state = CANCELLED, sequence_number = 1, cancel_flag = True\<rparr>,
           [OutputChunk ''r1'' 0 ''partial'', TerminalStatus ''r1'' cancelled []])
   \<and> sequence_numbers [OutputChunk ''r1'' 0 ''partial'', TerminalStatus ''r1'' cancelled []] = [0..<1]
   \<and> is_TerminalStatus (last [OutputChunk ''r1'' 0 ''partial'', TerminalStatus ''r1'' cancelled []])
   \<and> state \<lparr>state = RUNNING, sequence_number = 4, cancel_flag = False\<rparr> = RUNNING
   \<and> step ''r1'' \<lparr>state = RUNNING, sequence_number = 4, cancel_flag = False\<rparr> (Chunk ''x'') =
       Some (\<lparr>state = RUNNING, sequence_number = 5, cancel_flag = False\<rparr>, [OutputChunk ''r1'' 4 ''x''])
   \<and> sequence_number \<lparr>state = RUNNING, sequence_number = 5, cancel_flag = False\<rparr> = Suc 4"
  using sequence_numbers_count_up [where rid = "''r1''"
      and evs = "[Start, Chunk ''partial'', CancelRequest, Chunk ''more'']"
      and s = "\<lparr>state = CANCELLED, sequence_number = 1, cancel_flag = True\<rparr>"
      and out = "[OutputChunk ''r1'' 0 ''partial'', TerminalStatus ''r1'' cancelled []]"
      and ?s1.0 = "\<lparr>state = RUNNING, sequence_number = 4, cancel_flag = False\<rparr>"
      and d = "''x''"
      and ?s2.0 = "\<lparr>state = RUNNING, sequence_number = 5, cancel_flag = False\<rparr>"
      and ?o2.0 = "[OutputChunk ''r1'' 4 ''x'']"]
  by (simp add: new_session_def)

subsection \<open>The claims about the service handler\<close>

lemma Cancel_idem: "Cancel rid (snd (Cancel rid h)) = Cancel rid h"
proof (cases "rid \<in> set (seen h)")
  case False
  then show ?thesis by (simp add: Cancel_def)
next
  case seen: True
  show ?thesis
  proof (cases "map_of (sessions h) rid")
    case None
    with seen show ?thesis by (simp add: Cancel_def)
  next
    case (Some s)
    show ?thesis
    proof (cases "is_terminal (state s)")
      case True
      with seen Some show ?thesis by (simp add: Cancel_def)
    next
      case False
      with seen Some have 1: "Cancel rid h =
          (Inr Acknowledgement,
           h\<lparr>sessions := AList.update rid (s\<lparr>cancel_flag := True\<rparr>) (sessions h)\<rparr>)"
        by (simp add: Cancel_def)
      from seen False show ?thesis
        unfolding 1 by (simp add: Cancel_def update_conv')
    qed
  qed
qed

text \<open>
  C6. Cancel on a request id whose TerminalStatus has been delivered (the handler has
  seen the id, and its session is terminal or destroyed) returns the acknowledgement
  and leaves the handler as it was. Cancel is idempotent: a second Cancel on the same
  request id gives the same answer and the same handler as the first.
\<close>

theorem cancel_after_terminal_is_noop:
  "(terminal_delivered h rid \<longrightarrow> Cancel rid h = (Inr Acknowledgement, h))
   \<and> Cancel rid (snd (Cancel rid h)) = Cancel rid h"
proof (intro conjI impI)
  assume "terminal_delivered h rid"
  then show "Cancel rid h = (Inr Acknowledgement, h)"
    by (auto simp: terminal_delivered_def Cancel_def split: option.splits)
next
  show "Cancel rid (snd (Cancel rid h)) = Cancel rid h"
    by (rule Cancel_idem)
qed

text \<open>
  The handler of the example below is reached from the empty handler by admitting a
  request and driving its session to completion.
\<close>

lemma sample_lifecycle:
  "Invoke 0 \<lparr>request_id = ''r1'', payload = ''task'', deadline = None\<rparr> empty_handler =
     (Inr (), \<lparr>sessions = [(''r1'', new_session)], seen = [''r1''], is_serving = True\<rparr>)
   \<and> work_event ''r1'' (Chunk ''partial'')
       \<lparr>sessions = [(''r1'', new_session)], seen = [''r1''], is_serving = True\<rparr> =
     Some (\<lparr>sessions = [(''r1'', \<lparr>state = RUNNING, sequence_number = 1, cancel_flag = False\<rparr>)],
            seen = [''r1''], is_serving = True\<rparr>,
           [OutputChunk ''r1'' 0 ''partial''])
   \<and> work_event ''r1'' (Finish ''done'')
       \<lparr>sessions = [(''r1'', \<lparr>state = RUNNING, sequence_number = 1, cancel_flag = False\<rparr>)],
        seen = [''r1''], is_serving = True\<rparr> =
     Some (\<lparr>sessions = [(''r1'', \<lparr>state = COMPLETED, sequence_number = 1, cancel_flag = False\<rparr>)],
            seen = [''r1''], is_serving = True\<rparr>,
           [TerminalStatus ''r1'' completed ''done''])"
  by (simp add: Invoke_def work_event_def empty_handler_def expired_def in_flight_def new_session_def)

theorem cancel_after_terminal_is_noop_witness:
  "terminal_delivered
     \<lparr>sessions = [(''r1'', \<lparr>state = COMPLETED, sequence_number = 1, cancel_flag = False\<rparr>)],
      seen = [''r1''], is_serving = True\<rparr> ''r1''
   \<and> Cancel ''r1''
       \<lparr>sessions = [(''r1'', \<lparr>state = COMPLETED, sequence_number = 1, cancel_flag = False\<rparr>)],
        seen = [''r1''], is_serving = True\<rparr> =
     (Inr Acknowledgement,
      \<lparr>sessions = [(''r1'', \<lparr>state = COMPLETED, sequence_number = 1, cancel_flag = False\<rparr>)],
       seen = [''r1''], is_serving = True\<rparr>)"
  using cancel_after_terminal_is_noop [where rid = "''r1''"
      and h = "\<lparr>sessions = [(''r1'', \<lparr>state = COMPLETED, sequence_number = 1, cancel_flag = False\<rparr>)],
      seen = [''r1''], is_serving = True\<rparr>"]
  by (simp add: terminal_delivered_def)

text \<open>
  C7. A request whose deadline is already in the past is rejected by Invoke with
  DeadlineExceeded, whatever its request id and whatever the handler holds. The handler
  is returned as it was: no Session is created, the session table and the active session
  count of Health are the same, and when no session of that request id was in flight
  before, there is none after, so that no chunk and no terminal status can be produced
  for it.
\<close>

theorem expired_request_is_rejected:
  assumes "expired now req"
  shows "Invoke now req h = (Inl DeadlineExceeded, h)
       \<and> sessions (snd (Invoke now req h)) = sessions h
       \<and> Health (snd (Invoke now req h)) = Health h
       \<and> (\<not> in_flight h (request_id req) \<longrightarrow>
            work_event (request_id req) ev (snd (Invoke now req h)) = None)"
proof -
  from assms have inv: "Invoke now req h = (Inl DeadlineExceeded, h)"
    by (simp add: Invoke_def)
  have "\<not> in_flight h (request_id req) \<longrightarrow>
      work_event (request_id req) ev (snd (Invoke now req h)) = None"
    by (simp add: inv work_event_def in_flight_def)
  with inv show ?thesis by simp
qed

theorem expired_request_is_rejected_witness:
  "expired 10 \<lparr>request_id = ''r2'', payload = ''task'', deadline = Some 5\<rparr>
   \<and> \<not> in_flight empty_handler ''r2''
   \<and> Invoke 10 \<lparr>request_id = ''r2'', payload = ''task'', deadline = Some 5\<rparr> empty_handler =
       (Inl DeadlineExceeded, empty_handler)
   \<and> Health (snd (Invoke 10 \<lparr>request_id = ''r2'', payload = ''task'', deadline = Some 5\<rparr>
        empty_handler)) = \<lparr>serving = True, active_session_count = 0\<rparr>
   \<and> work_event ''r2'' (Chunk ''partial'')
        (snd (Invoke 10 \<lparr>request_id = ''r2'', payload = ''task'', deadline = Some 5\<rparr>
           empty_handler)) = None"
  using expired_request_is_rejected [where now = 10
      and req = "\<lparr>request_id = ''r2'', payload = ''task'', deadline = Some 5\<rparr>"
      and h = empty_handler and ev = "Chunk ''partial''"]
  by (simp add: expired_def in_flight_def empty_handler_def Invoke_def work_event_def Health_def)

end
